theory Spec2Isabelle
  imports Complex_Main "HOL-Library.Sublist"
begin

section \<open>Python values and dictionaries\<close>

text \<open>
  The pipeline keeps its session state in JSON-like dictionaries. A value is one of
  Python's \<^verbatim>\<open>None\<close>, a bool, an int, a float, a string, a list or a dict.
  Floats are modelled by the real number they denote (rounding, infinities and NaN
  are not modelled). A dict is an association list in insertion order.
\<close>

datatype pyval =
    VNone
  | VBool bool
  | VInt int
  | VFloat real
  | VStr string
  | VList "pyval list"
  | VDict "(string \<times> pyval) list"

type_synonym pydict = "(string \<times> pyval) list"

text \<open>\<^verbatim>\<open>d.get(k)\<close>: the value stored under the key, \<^verbatim>\<open>None\<close> when the key is missing.\<close>

definition dict_get :: "pydict \<Rightarrow> string \<Rightarrow> pyval" where
  "dict_get d k = (case map_of d k of None \<Rightarrow> VNone | Some v \<Rightarrow> v)"

text \<open>\<^verbatim>\<open>k in d\<close>.\<close>

definition dict_has :: "pydict \<Rightarrow> string \<Rightarrow> bool" where
  "dict_has d k = (map_of d k \<noteq> None)"

text \<open>\<^verbatim>\<open>d[k] = v\<close>: replaces the value in place, a new key goes to the end.\<close>

fun dict_set :: "pydict \<Rightarrow> string \<Rightarrow> pyval \<Rightarrow> pydict" where
  "dict_set [] k v = [(k, v)]"
| "dict_set ((k', v') # d) k v = (if k' = k then (k, v) # d else (k', v') # dict_set d k v)"


text \<open>Python truthiness (\<^verbatim>\<open>bool(v)\<close>, \<^verbatim>\<open>if v\<close>, \<^verbatim>\<open>a or b\<close>).\<close>

fun truthy :: "pyval \<Rightarrow> bool" where
  "truthy VNone = False"
| "truthy (VBool b) = b"
| "truthy (VInt i) = (i \<noteq> 0)"
| "truthy (VFloat r) = (r \<noteq> 0)"
| "truthy (VStr s) = (s \<noteq> [])"
| "truthy (VList xs) = (xs \<noteq> [])"
| "truthy (VDict d) = (d \<noteq> [])"


text \<open>\<^verbatim>\<open>isinstance(v, int)\<close>: in Python \<^verbatim>\<open>bool\<close> is a subclass of \<^verbatim>\<open>int\<close>.\<close>

fun is_int :: "pyval \<Rightarrow> bool" where
  "is_int (VInt i) = True"
| "is_int (VBool b) = True"
| "is_int v = False"




section \<open>Short memory: defaults and TTL expiry\<close>









section \<open>Text primitives\<close>

definition is_digit :: "char \<Rightarrow> bool" where
  "is_digit c = (48 \<le> (of_char c :: nat) \<and> (of_char c :: nat) \<le> 57)"

definition is_lower :: "char \<Rightarrow> bool" where
  "is_lower c = (97 \<le> (of_char c :: nat) \<and> (of_char c :: nat) \<le> 122)"

definition is_upper :: "char \<Rightarrow> bool" where
  "is_upper c = (65 \<le> (of_char c :: nat) \<and> (of_char c :: nat) \<le> 90)"

definition is_space :: "char \<Rightarrow> bool" where
  "is_space c = ((9 \<le> (of_char c :: nat) \<and> (of_char c :: nat) \<le> 13)
                 \<or> (28 \<le> (of_char c :: nat) \<and> (of_char c :: nat) \<le> 32))"

definition is_word :: "char \<Rightarrow> bool" where
  "is_word c = (is_digit c \<or> is_lower c \<or> is_upper c \<or> c = CHR ''_'')"

definition lower_char :: "char \<Rightarrow> char" where
  "lower_char c = (if is_upper c then char_of (of_char c + (32::nat)) else c)"

definition upper_char :: "char \<Rightarrow> char" where
  "upper_char c = (if is_lower c then char_of (of_char c - (32::nat)) else c)"

definition py_lower :: "string \<Rightarrow> string" where
  "py_lower s = map lower_char s"

definition py_upper :: "string \<Rightarrow> string" where
  "py_upper s = map upper_char s"

definition py_strip :: "string \<Rightarrow> string" where
  "py_strip s = rev (dropWhile is_space (rev (dropWhile is_space s)))"

fun sub_runs :: "(char \<Rightarrow> bool) \<Rightarrow> string \<Rightarrow> bool \<Rightarrow> string \<Rightarrow> string" where
  "sub_runs P r b [] = []"
| "sub_runs P r b (x # xs) =
     (if P x then (if b then [] else r) @ sub_runs P r True xs
      else x # sub_runs P r False xs)"

definition re_sub_runs :: "(char \<Rightarrow> bool) \<Rightarrow> string \<Rightarrow> string \<Rightarrow> string" where
  "re_sub_runs P r s = sub_runs P r False s"

definition keep_char :: "char \<Rightarrow> bool" where
  "keep_char c = (is_lower c \<or> is_digit c \<or> is_space c \<or> c \<in> set ''-_/.'')"

definition normalize_text :: "string \<Rightarrow> string" where
  "normalize_text text =
     (if text = [] then []
      else let lowered = py_lower text;
               cleaned = re_sub_runs (\<lambda>c. \<not> keep_char c) '' '' lowered
           in py_strip (re_sub_runs is_space '' '' cleaned))"

fun split_aux :: "string \<Rightarrow> string \<Rightarrow> string list" where
  "split_aux cur [] = (if cur = [] then [] else [rev cur])"
| "split_aux cur (x # xs) =
     (if is_space x then (if cur = [] then [] else [rev cur]) @ split_aux [] xs
      else split_aux (x # cur) xs)"

definition py_split :: "string \<Rightarrow> string list" where
  "py_split s = split_aux [] s"

fun contains :: "string \<Rightarrow> string \<Rightarrow> bool" where
  "contains sub [] = (sub = [])"
| "contains sub (x # xs) = (prefix sub (x # xs) \<or> contains sub xs)"


section \<open>Regular expressions\<close>

datatype cclass = CChar char | CDigit | CSpace | CRange char char | COneOf "cclass list"

fun cm :: "cclass \<Rightarrow> char \<Rightarrow> bool" where
  "cm (CChar c) x = (x = c)"
| "cm CDigit x = is_digit x"
| "cm CSpace x = is_space x"
| "cm (CRange lo hi) x = ((of_char lo :: nat) \<le> of_char x \<and> (of_char x :: nat) \<le> of_char hi)"
| "cm (COneOf cs) x = list_ex (\<lambda>c. cm c x) cs"

definition cmatch :: "bool \<Rightarrow> cclass \<Rightarrow> char \<Rightarrow> bool" where
  "cmatch ic cls x = (cm cls x \<or> (ic \<and> (cm cls (lower_char x) \<or> cm cls (upper_char x))))"

datatype rx =
    Sym cclass
  | Eps
  | Seq rx rx
  | Alt rx rx
  | Opt rx
  | Rep cclass nat "nat option"
  | WordB
  | Grp nat rx

type_synonym caps = "(nat \<times> string) list"
type_synonym mstate = "char option \<times> string \<times> caps"

fun reps :: "bool \<Rightarrow> cclass \<Rightarrow> nat option \<Rightarrow> char option \<Rightarrow> string
              \<Rightarrow> (nat \<times> char option \<times> string) list" where
  "reps ic cls hi p [] = [(0, p, [])]"
| "reps ic cls hi p (x # xs) =
     (if hi \<noteq> Some 0 \<and> cmatch ic cls x
      then map (\<lambda>(k, c). (Suc k, c)) (reps ic cls (map_option (\<lambda>h. h - 1) hi) (Some x) xs)
      else []) @ [(0, p, x # xs)]"

definition at_boundary :: "char option \<Rightarrow> string \<Rightarrow> bool" where
  "at_boundary p s =
     ((case p of None \<Rightarrow> False | Some c \<Rightarrow> is_word c)
      \<noteq> (case s of [] \<Rightarrow> False | x # _ \<Rightarrow> is_word x))"

fun mt :: "bool \<Rightarrow> rx \<Rightarrow> mstate \<Rightarrow> mstate list" where
  "mt ic (Sym cls) (p, s, g) =
     (case s of [] \<Rightarrow> [] | x # xs \<Rightarrow> if cmatch ic cls x then [(Some x, xs, g)] else [])"
| "mt ic Eps st = [st]"
| "mt ic (Seq a b) st = concat (map (mt ic b) (mt ic a st))"
| "mt ic (Alt a b) st = mt ic a st @ mt ic b st"
| "mt ic (Opt a) st = mt ic a st @ [st]"
| "mt ic (Rep cls lo hi) (p, s, g) =
     map (\<lambda>(k, p', s'). (p', s', g)) (filter (\<lambda>(k, c). lo \<le> k) (reps ic cls hi p s))"
| "mt ic WordB (p, s, g) = (if at_boundary p s then [(p, s, g)] else [])"
| "mt ic (Grp n a) (p, s, g) =
     map (\<lambda>(p', s', g'). (p', s', (n, take (length s - length s') s) # g')) (mt ic a (p, s, g))"

fun Str :: "string \<Rightarrow> rx" where
  "Str [] = Eps"
| "Str [c] = Sym (CChar c)"
| "Str (c # cs) = Seq (Sym (CChar c)) (Str cs)"

fun Alts :: "rx list \<Rightarrow> rx" where
  "Alts [] = Sym (COneOf [])"
| "Alts [r] = r"
| "Alts (r # rs) = Alt r (Alts rs)"

fun Seqs :: "rx list \<Rightarrow> rx" where
  "Seqs [] = Eps"
| "Seqs [r] = r"
| "Seqs (r # rs) = Seq r (Seqs rs)"

definition Words :: "string list \<Rightarrow> rx" where
  "Words ws = Alts (map Str ws)"

text \<open>A match: the text before the match start is dropped; we keep the suffix at the
  start, and the state at the end.\<close>

record rmatch =
  m_start :: nat
  m_text :: string
  m_groups :: caps
  m_end_prev :: "char option"
  m_rest :: string

fun search_at :: "bool \<Rightarrow> rx \<Rightarrow> nat \<Rightarrow> char option \<Rightarrow> string \<Rightarrow> rmatch option" where
  "search_at ic r pos p [] =
     (case mt ic r (p, [], []) of
        [] \<Rightarrow> None
      | (p', s', g') # _ \<Rightarrow> Some \<lparr>m_start = pos, m_text = [], m_groups = g', m_end_prev = p', m_rest = s'\<rparr>)"
| "search_at ic r pos p (x # xs) =
     (case mt ic r (p, x # xs, []) of
        [] \<Rightarrow> search_at ic r (Suc pos) (Some x) xs
      | (p', s', g') # _ \<Rightarrow>
          Some \<lparr>m_start = pos, m_text = take (length (x # xs) - length s') (x # xs),
                m_groups = g', m_end_prev = p', m_rest = s'\<rparr>)"

definition re_search :: "bool \<Rightarrow> rx \<Rightarrow> string \<Rightarrow> rmatch option" where
  "re_search ic r s = search_at ic r 0 None s"

definition re_found :: "bool \<Rightarrow> rx \<Rightarrow> string \<Rightarrow> bool" where
  "re_found ic r s = (re_search ic r s \<noteq> None)"

definition re_fullmatch :: "bool \<Rightarrow> rx \<Rightarrow> string \<Rightarrow> bool" where
  "re_fullmatch ic r s = list_ex (\<lambda>(p, s', g). s' = []) (mt ic r (None, s, []))"

definition re_match :: "bool \<Rightarrow> rx \<Rightarrow> string \<Rightarrow> bool" where
  "re_match ic r s = (mt ic r (None, s, []) \<noteq> [])"

definition group :: "rmatch \<Rightarrow> nat \<Rightarrow> string option" where
  "group m n = (if n = 0 then Some (m_text m) else map_of (m_groups m) n)"





subsection \<open>Compiled patterns\<close>

definition kw_re :: "string list \<Rightarrow> rx" where
  "kw_re ws = Seqs [WordB, Grp 1 (Words ws), WordB]"

definition spaces0 :: rx where
  "spaces0 = Rep CSpace 0 None"

definition RELATED_QUERY_RE :: rx where
  "RELATED_QUERY_RE = kw_re [''di kem'', ''phu kien'', ''linh kien'', ''kem theo'', ''di cung'',
     ''chup'', ''chup khi'', ''than giu'', ''cach dien'', ''su'', ''orifice'', ''insulator'', ''body'']"


definition TYPE_ANSWER_RE :: rx where
  "TYPE_ANSWER_RE = kw_re [''tay'', ''robot'', ''robotic'', ''hand'']"

definition PRICE_RE :: rx where
  "PRICE_RE = kw_re [''gia'', ''chiet khau'', ''bao gia'', ''ton kho'', ''kho'', ''co san'',
     ''con hang'', ''co hang'', ''giao'', ''vat'']"

definition LISTING_RE :: rx where
  "LISTING_RE = kw_re [''liet ke'', ''danh sach'', ''list'', ''cac ma'', ''nhung ma'', ''ma nao'']"

definition CODE_RE :: rx where
  "CODE_RE = Seqs [WordB,
     Grp 1 (Seqs [Str ''tokin'', Opt (Str ''arc''), spaces0, Rep CDigit 1 None]), WordB]"

definition QUANTITY_RE :: rx where
  "QUANTITY_RE = Seqs [WordB, Grp 1 (Rep CDigit 1 (Some 6)), spaces0,
     Grp 2 (Words [''cai'', ''chiec'', ''con'', ''bo'', ''cap'', ''set'', ''pcs'', ''sp'']), WordB]"

definition SO_LUONG_RE :: rx where
  "SO_LUONG_RE = Seqs [WordB, Grp 1 (Words [''so luong'', ''sl'']), spaces0,
     Grp 2 (Rep CDigit 1 (Some 6)), WordB]"

definition code_chars :: cclass where
  "code_chars = COneOf [CRange CHR ''0'' CHR ''9'', CRange CHR ''A'' CHR ''Z'']"

definition D_CODE_RE :: rx where
  "D_CODE_RE = Seqs [WordB, Sym (CChar CHR ''U''), Rep code_chars 4 None, WordB]"

definition P_CODE_RE :: rx where
  "P_CODE_RE = Seqs [WordB, Sym (CChar CHR ''P''), Rep code_chars 4 None, WordB]"

definition NUM_CODE_RE :: rx where
  "NUM_CODE_RE = Seqs [WordB, Rep CDigit 5 (Some 6), WordB]"

definition AMP_ANY_RE :: rx where
  "AMP_ANY_RE = Seqs [WordB, Grp 1 (Rep CDigit 3 (Some 3)), spaces0, Sym (CChar CHR ''a''), WordB]"




definition FOLLOWUP_CUE_RE :: rx where
  "FOLLOWUP_CUE_RE = kw_re [''thi sao'', ''the sao'', ''sao'']"




section \<open>Slot extraction\<close>

subsection \<open>Numbers from text\<close>

text \<open>The exceptions the modelled code can raise.\<close>

datatype pyerr = TypeError | ValueError | IndexError | KeyError

definition digit_val :: "char \<Rightarrow> nat" where
  "digit_val c = of_char c - 48"

definition digits_val :: "string \<Rightarrow> nat" where
  "digits_val s = foldl (\<lambda>acc c. 10 * acc + digit_val c) 0 s"


text \<open>The body of an integer literal: digits, with single underscores between digits.\<close>

fun int_body :: "bool \<Rightarrow> string \<Rightarrow> bool" where
  "int_body prev_digit [] = prev_digit"
| "int_body prev_digit (c # cs) =
     (if is_digit c then int_body True cs
      else if c = CHR ''_'' \<and> prev_digit then int_body False cs
      else False)"

text \<open>
  \<^verbatim>\<open>int(s)\<close> on a string: surrounding whitespace and one sign are allowed;
  \<open>None\<close> stands for the \<^verbatim>\<open>ValueError\<close>.
\<close>

definition py_int :: "string \<Rightarrow> int option" where
  "py_int s =
     (let t = py_strip s;
          signed = (case t of [] \<Rightarrow> False | c # _ \<Rightarrow> c = CHR ''-'' \<or> c = CHR ''+'');
          neg = (case t of [] \<Rightarrow> False | c # _ \<Rightarrow> c = CHR ''-'');
          body = (if signed then tl t else t)
      in if int_body False body
         then Some ((if neg then - 1 else 1) * int (digits_val (filter is_digit body)))
         else None)"


text \<open>
  \<^verbatim>\<open>int(match.group(n))\<close> inside \<^verbatim>\<open>try ... except ValueError\<close>. A group that
  took no part in the match is \<^verbatim>\<open>None\<close>, and \<^verbatim>\<open>int(None)\<close> raises a
  \<^verbatim>\<open>TypeError\<close> that the handler does not catch; the \<^verbatim>\<open>ValueError\<close> is caught
  and becomes \<^verbatim>\<open>None\<close>.
\<close>

definition int_of_group :: "rmatch \<Rightarrow> nat \<Rightarrow> pyerr + int option" where
  "int_of_group m n = (case group m n of None \<Rightarrow> Inl TypeError | Some t \<Rightarrow> Inr (py_int t))"


subsection \<open>Detectors\<close>




definition extract_quantity :: "string \<Rightarrow> pyerr + int option" where
  "extract_quantity normalized =
     (case re_search True SO_LUONG_RE normalized of
        Some m \<Rightarrow> int_of_group m 2
      | None \<Rightarrow>
         (case re_search True QUANTITY_RE normalized of
            Some m \<Rightarrow> int_of_group m 1
          | None \<Rightarrow> Inr None))"

definition detect_product_group :: "string \<Rightarrow> string option" where
  "detect_product_group normalized =
     (if contains ''than giu'' normalized \<or> contains ''tip body'' normalized
        then Some ''TIP_BODY''
      else if contains ''cach dien'' normalized \<or> contains ''insulator'' normalized
        then Some ''INSULATOR''
      else if contains ''su'' normalized \<or> contains ''orifice'' normalized
              \<or> contains ''diffuser'' normalized
        then Some ''ORIFICE''
      else if contains ''chup'' normalized \<or> contains ''nozzle'' normalized
        then Some ''NOZZLE''
      else if contains ''bec'' normalized \<or> contains ''contact tip'' normalized
              \<or> contains ''tip'' normalized
        then Some ''TIP''
      else None)"










subsection \<open>The parsed slot bag\<close>

record parsed =
  p_normalized :: string
  p_skus :: "string list"
  p_codes :: "string list"
  p_primary_code :: string
  p_quantity :: "int option"
  p_amp :: string
  p_is_robot :: "bool option"
  p_product_group :: "string option"
  p_required_parts :: "string list"
  p_bundle_hint :: bool
  p_expand_bundle :: bool
  p_constraints :: pydict


section \<open>Dialogue-act classification\<close>

text \<open>
  Sequencing of fallible steps: the first exception ends the computation, as an
  uncaught Python exception does.
\<close>

definition then_do :: "pyerr + 'a \<Rightarrow> ('a \<Rightarrow> pyerr + 'b) \<Rightarrow> pyerr + 'b" where
  "then_do x f = (case x of Inl e \<Rightarrow> Inl e | Inr v \<Rightarrow> f v)"

definition word_count :: "string \<Rightarrow> nat" where
  "word_count s = length (py_split s)"

definition availability_phrases :: "string list" where
  "availability_phrases =
     [''co ban khong'', ''ban khong'', ''con ban khong'', ''co ban ko'', ''ban ko'',
      ''co ban k'', ''ban k'', ''co cung cap khong'', ''co cung cap ko'', ''co cung cap k'',
      ''ben em co khong'', ''ben em co ko'', ''ben em co k'', ''co khong'', ''co ko'', ''co k'']"

definition is_availability_query :: "string \<Rightarrow> bool" where
  "is_availability_query message =
     (let normalized = normalize_text message
      in list_ex (\<lambda>phrase. contains phrase normalized) availability_phrases)"

definition units5 :: rx where
  "units5 = Words [''cai'', ''chiec'', ''con'', ''bo'', ''cap'']"

definition PURE_QTY_DIGITS :: rx where
  "PURE_QTY_DIGITS = Rep CDigit 1 (Some 6)"

definition PURE_QTY_MOT :: rx where
  "PURE_QTY_MOT = Seq (Grp 1 (Str ''mot'')) (Opt (Grp 2 (Seq (Rep CSpace 1 None) (Grp 3 units5))))"

definition PURE_QTY_UNIT :: rx where
  "PURE_QTY_UNIT = Seqs [Rep CDigit 1 (Some 6), spaces0, Grp 1 units5]"

definition is_pure_quantity_message :: "string \<Rightarrow> bool" where
  "is_pure_quantity_message message =
     (let normalized = normalize_text message
      in if normalized = [] then False
         else if re_fullmatch False PURE_QTY_DIGITS normalized then True
         else if re_fullmatch False PURE_QTY_MOT normalized then True
         else if re_fullmatch False PURE_QTY_UNIT normalized then True
         else False)"

definition is_type_only_message :: "string \<Rightarrow> bool" where
  "is_type_only_message message =
     (let n = normalize_text message
      in if word_count n > 6 then False
         else re_found True TYPE_ANSWER_RE n
              \<and> \<not> re_found True CODE_RE n
              \<and> \<not> re_found True LISTING_RE n
              \<and> \<not> re_found True PRICE_RE n)"

definition is_amp_only_message :: "string \<Rightarrow> pyerr + bool" where
  "is_amp_only_message message =
     (let normalized = normalize_text message
      in if \<not> re_found True AMP_ANY_RE normalized then Inr False
         else then_do (extract_quantity normalized) (\<lambda>qty.
           if qty \<noteq> None then Inr False
           else if detect_product_group normalized \<noteq> None then Inr False
           else if re_found True CODE_RE message \<or> re_found True D_CODE_RE message
                   \<or> re_found True P_CODE_RE message \<or> re_found False NUM_CODE_RE message
             then Inr False
           else if re_found True PRICE_RE normalized \<or> re_found True LISTING_RE normalized
                   \<or> re_found True RELATED_QUERY_RE normalized
             then Inr False
           else if word_count normalized \<le> 4 then Inr True
           else Inr (re_found True FOLLOWUP_CUE_RE normalized \<and> word_count normalized \<le> 6)))"

definition is_quantity_followup_message :: "string \<Rightarrow> pyerr + bool" where
  "is_quantity_followup_message message =
     (let n = normalize_text message
      in then_do (extract_quantity n) (\<lambda>qty.
           if qty = None then Inr False
           else if re_found True CODE_RE message \<or> re_found True LISTING_RE n
                   \<or> re_found True PRICE_RE n \<or> re_found True RELATED_QUERY_RE n
             then Inr False
           else if detect_product_group n \<noteq> None then Inr False
           else Inr (word_count n \<le> 8)))"

definition message_has_any_term :: "string \<Rightarrow> string list \<Rightarrow> bool" where
  "message_has_any_term normalized terms =
     (if normalized = [] \<or> terms = [] then False
      else let padded = '' '' @ normalized @ '' ''
           in list_ex (\<lambda>term. term \<noteq> [] \<and> contains ('' '' @ term @ '' '') padded) terms)"

definition AFFIRM_TERMS :: "string list" where
  "AFFIRM_TERMS = [''muon'', ''ok'', ''oke'', ''okay'', ''dong y'', ''nhat tri'', ''chap nhan'',
     ''co'', ''duoc'', ''yes'']"

definition NEGATE_TERMS :: "string list" where
  "NEGATE_TERMS = [''khong'', ''khong can'', ''khong muon'', ''de sau'', ''thoi'', ''huy'',
     ''cancel'', ''ko'', ''k'']"

text \<open>The guards shared by \<^verbatim>\<open>is_affirmation_message\<close> and \<^verbatim>\<open>is_negative_message\<close>,
  which differ only in the term list.\<close>

definition short_reply_with :: "string list \<Rightarrow> string \<Rightarrow> pyerr + bool" where
  "short_reply_with terms message =
     (let normalized = normalize_text message
      in if normalized = [] then Inr False
         else if is_availability_query message then Inr False
         else if re_found True CODE_RE message \<or> re_found True LISTING_RE normalized
                 \<or> re_found True PRICE_RE normalized
           then Inr False
         else then_do (extract_quantity normalized) (\<lambda>qty.
           if qty \<noteq> None \<or> re_found True AMP_ANY_RE normalized then Inr False
           else if detect_product_group normalized \<noteq> None
                   \<or> re_found True RELATED_QUERY_RE normalized
             then Inr False
           else if word_count normalized > 4 then Inr False
           else Inr (message_has_any_term normalized terms)))"

definition is_affirmation_message :: "string \<Rightarrow> pyerr + bool" where
  "is_affirmation_message message = short_reply_with AFFIRM_TERMS message"

definition is_negative_message :: "string \<Rightarrow> pyerr + bool" where
  "is_negative_message message = short_reply_with NEGATE_TERMS message"

datatype dialogue_act =
  SLOT_FILL_AMP | SLOT_FILL_TYPE | SLOT_FILL_QUANTITY | AFFIRM | NEGATE | NEW_INTENT

text \<open>\<^verbatim>\<open>is_pure_quantity_message(m) or is_quantity_followup_message(m)\<close>, with
  Python's short-circuit evaluation.\<close>

definition is_quantity_message :: "string \<Rightarrow> pyerr + bool" where
  "is_quantity_message message =
     (if is_pure_quantity_message message then Inr True
      else is_quantity_followup_message message)"

definition detect_dialogue_act :: "string \<Rightarrow> pyerr + dialogue_act" where
  "detect_dialogue_act message =
     then_do (is_amp_only_message message) (\<lambda>amp_only.
       if amp_only then Inr SLOT_FILL_AMP
       else if is_type_only_message message then Inr SLOT_FILL_TYPE
       else then_do (is_quantity_message message) (\<lambda>qty_msg.
         if qty_msg then Inr SLOT_FILL_QUANTITY
         else then_do (is_affirmation_message message) (\<lambda>affirm.
           if affirm then Inr AFFIRM
           else then_do (is_negative_message message) (\<lambda>negate.
             if negate then Inr NEGATE else Inr NEW_INTENT))))"

section \<open>Memory-based request resolution\<close>

text \<open>
  The slots of the short memory that \<^verbatim>\<open>resolve_request_with_memory\<close> reads, as
  the memory updater writes them: strings, lists of strings and a constraint dict.
  The function reads every slot through \<^verbatim>\<open>.get(...) or default\<close>, so a missing key
  and an empty value read alike; only for \<^verbatim>\<open>pending_action\<close> does it test the
  dict itself, and there \<open>None\<close> stands for a missing or empty dict \<^verbatim>\<open>{}\<close>.
\<close>

record last_anchor =
  la_sku :: string
  la_cat :: string
  la_line_amp :: string
  la_is_robot :: "bool option"
  la_name :: string

record pending_action =
  pa_action :: string
  pa_required_parts :: "string list"
  pa_anchor_sku :: string
  pa_product_group :: string
  pa_constraints :: pydict

record short_memory =
  mem_last_anchor :: last_anchor
  mem_last_intent :: string
  mem_last_results :: "string list"
  mem_pending_required_parts :: "string list"
  mem_pending_action :: "pending_action option"
  mem_last_user_constraints :: pydict


record resolved =
  r_anchor_sku :: string
  r_anchor_cat :: string
  r_anchor_name :: string
  r_anchor_used :: bool
  r_product_group :: string
  r_line_amp :: pyval
  r_is_robot :: "bool option"
  r_required_parts :: "string list"
  r_bundle_hint :: bool
  r_expand_bundle :: bool
  r_constraints :: pydict
  r_force_intent :: string
  r_clear_pending_action :: bool

definition TECHNICAL_INTENTS :: "string list" where
  "TECHNICAL_INTENTS = [''PRODUCT_LOOKUP'', ''ACCESSORY_LOOKUP'', ''ACCESSORY_BUNDLE_LOOKUP'',
     ''LIST'', ''LIST_REQUEST'', ''SLOT_FILL_AMP'']"

text \<open>\<^verbatim>\<open>merge_unique\<close>: upper-cased values in order of first appearance, empty ones skipped.\<close>

fun merge_unique_aux :: "string list \<Rightarrow> string list \<Rightarrow> string list" where
  "merge_unique_aux seen [] = []"
| "merge_unique_aux seen (v # vs) =
     (if v = [] then merge_unique_aux seen vs
      else let key = py_upper v
           in if key \<in> set seen then merge_unique_aux seen vs
              else key # merge_unique_aux (key # seen) vs)"

definition merge_unique :: "string list \<Rightarrow> string list \<Rightarrow> string list" where
  "merge_unique primary secondary = merge_unique_aux [] (primary @ secondary)"

text \<open>The follow-up test (source lines 2842 to 2847).\<close>

definition is_followup :: "string \<Rightarrow> parsed \<Rightarrow> short_memory \<Rightarrow> bool" where
  "is_followup normalized p memory =
     (let followup0 = re_found True FOLLOWUP_CUE_RE normalized;
          followup1 = (followup0 \<or> (case p_quantity p of None \<Rightarrow> False | Some q \<Rightarrow> q \<noteq> 0)
                       \<or> p_amp p \<noteq> []);
          followup2 = (followup1 \<or> p_is_robot p \<noteq> None);
          followup3 = (followup2 \<or> p_bundle_hint p)
      in if word_count normalized \<le> 4 \<and> la_sku (mem_last_anchor memory) \<noteq> [] then True
         else followup3)"

text \<open>
  Anchor selection (source lines 2849 to 2865): the result is
  \<open>(anchor_sku, anchor_cat, anchor_name, anchor_used)\<close>.
\<close>

definition select_anchor :: "bool \<Rightarrow> parsed \<Rightarrow> short_memory
    \<Rightarrow> string \<times> string \<times> string \<times> bool" where
  "select_anchor followup p memory =
     (let la = mem_last_anchor memory
      in case p_skus p of
           s # _ \<Rightarrow> (s, [], [], False)
         | [] \<Rightarrow>
            if followup \<and> la_sku la \<noteq> [] then (la_sku la, la_cat la, la_name la, True)
            else if followup \<and> length (mem_last_results memory) = 1
              then (case mem_last_results memory of
                      c # _ \<Rightarrow> (c, [], [], True) | [] \<Rightarrow> ([], [], [], False))
            else ([], [], [], False))"

text \<open>The constraint overlay (source lines 2894 to 2898).\<close>

fun overlay_constraints :: "pydict \<Rightarrow> pydict \<Rightarrow> pydict" where
  "overlay_constraints acc [] = acc"
| "overlay_constraints acc ((k, v) # kvs) =
     (if v = VNone \<or> v = VStr [] then overlay_constraints acc kvs
      else overlay_constraints (dict_set acc k v) kvs)"

text \<open>The constraints of an affirmed pending action fill absent keys only (lines 2924 to 2926).\<close>

fun fill_constraints :: "pydict \<Rightarrow> pydict \<Rightarrow> pydict" where
  "fill_constraints acc [] = acc"
| "fill_constraints acc ((k, v) # kvs) =
     (if truthy v \<and> \<not> dict_has acc k then fill_constraints (dict_set acc k v) kvs
      else fill_constraints acc kvs)"

text \<open>
  The independent signal that lets a new intent clear a pending action (source lines
  2932 to 2941), with the short-circuit order of the \<^verbatim>\<open>or\<close> chain.
\<close>

definition new_intent_signal :: "string \<Rightarrow> string \<Rightarrow> pyerr + bool" where
  "new_intent_signal message normalized =
     (if re_found True CODE_RE message \<or> re_found True LISTING_RE normalized
         \<or> re_found True PRICE_RE normalized \<or> re_found True RELATED_QUERY_RE normalized
         \<or> detect_product_group normalized \<noteq> None
      then Inr True
      else then_do (extract_quantity normalized) (\<lambda>qty.
             Inr (qty \<noteq> None \<or> re_found True AMP_ANY_RE normalized
                  \<or> is_availability_query message)))"

text \<open>
  The local variables of \<^verbatim>\<open>resolve_request_with_memory\<close> as they stand before the
  pending-action disposition (source lines 2834 to 2909), collected in the record that
  the function returns; \<open>qty_msg\<close> is the value of
  \<^verbatim>\<open>is_pure_quantity_message(message) or is_quantity_followup_message(message)\<close>.
\<close>

definition CON_RE :: rx where
  "CON_RE = Seq (Str ''con'') WordB"

definition effective_normalized :: "string \<Rightarrow> parsed \<Rightarrow> string" where
  "effective_normalized message p =
     (if p_normalized p \<noteq> [] then p_normalized p else normalize_text message)"

definition resolve_slots :: "string \<Rightarrow> parsed \<Rightarrow> short_memory \<Rightarrow> bool \<Rightarrow> resolved" where
  "resolve_slots message p memory qty_msg =
     (let normalized = effective_normalized message p;
          la = mem_last_anchor memory;
          is_list = re_found True LISTING_RE normalized;
          followup = is_followup normalized p memory;
          (anchor_sku, anchor_cat0, anchor_name0, anchor_used) = select_anchor followup p memory;
          anchor_cat = (if anchor_cat0 = [] \<and> la_cat la \<noteq> [] then la_cat la else anchor_cat0);
          anchor_name = (if anchor_name0 = [] \<and> la_name la \<noteq> [] then la_name la
                         else anchor_name0);
          product_group0 = (case p_product_group p of
                              None \<Rightarrow> anchor_cat
                            | Some g \<Rightarrow> if g \<noteq> [] then g else anchor_cat);
          stored_amp = dict_get (mem_last_user_constraints memory) ''amp'';
          line_amp = (if p_amp p \<noteq> [] then VStr (p_amp p)
                      else if truthy stored_amp then stored_amp else VStr []);
          is_robot = (if p_is_robot p = None \<and> la_is_robot la \<noteq> None then la_is_robot la
                      else p_is_robot p);
          requested_parts = p_required_parts p;
          required_parts0 = (if requested_parts = [] \<and> p_bundle_hint p
                             then mem_pending_required_parts memory else requested_parts);
          con_parts = (re_match False CON_RE normalized \<and> requested_parts \<noteq> []);
          required_parts1 = (if con_parts then requested_parts else required_parts0);
          expand_bundle = (if con_parts then False else p_expand_bundle p);
          product_group1 = (if con_parts \<and> length requested_parts = 1
                            then (case requested_parts of g # _ \<Rightarrow> g | [] \<Rightarrow> product_group0)
                            else product_group0);
          insulator = (contains ''cach dien'' normalized \<or> contains ''insulator'' normalized);
          product_group2 = (if insulator then ''INSULATOR'' else product_group1);
          required_parts2 = (if insulator \<and> ''INSULATOR'' \<notin> set required_parts1
                             then merge_unique required_parts1 [''INSULATOR'']
                             else required_parts1);
          constraints0 = overlay_constraints (mem_last_user_constraints memory) (p_constraints p);
          last_intent = mem_last_intent memory;
          force_intent0 =
            (if \<not> is_list \<and> (required_parts2 \<noteq> [] \<or> expand_bundle \<or> p_bundle_hint p)
                \<and> anchor_sku \<noteq> []
               then ''ACCESSORY_BUNDLE_LOOKUP''
             else if \<not> is_list \<and> truthy line_amp \<and> anchor_sku \<noteq> []
                     \<and> last_intent \<in> set TECHNICAL_INTENTS
               then last_intent
             else if \<not> is_list \<and> is_robot \<noteq> None \<and> anchor_sku \<noteq> []
                     \<and> last_intent \<in> set TECHNICAL_INTENTS
               then last_intent
             else []);
          force_intent1 = (if qty_msg then [] else force_intent0)
      in \<lparr>r_anchor_sku = anchor_sku, r_anchor_cat = anchor_cat,
          r_anchor_name = anchor_name, r_anchor_used = anchor_used,
          r_product_group = product_group2, r_line_amp = line_amp,
          r_is_robot = is_robot, r_required_parts = required_parts2,
          r_bundle_hint = p_bundle_hint p, r_expand_bundle = expand_bundle,
          r_constraints = constraints0, r_force_intent = force_intent1,
          r_clear_pending_action = False\<rparr>)"

text \<open>
  Pending-action disposition (source lines 2911 to 2943), on the slots computed so far.
\<close>

definition dispose_pending :: "string \<Rightarrow> string \<Rightarrow> parsed \<Rightarrow> pending_action option
    \<Rightarrow> dialogue_act \<Rightarrow> resolved \<Rightarrow> pyerr + resolved" where
  "dispose_pending message normalized p pending act r =
     (case pending of
        None \<Rightarrow> Inr r
      | Some pa \<Rightarrow>
         if act = AFFIRM then
           (if pa_action pa \<noteq> [] then
              Inr (r\<lparr>r_force_intent := pa_action pa,
                      r_clear_pending_action := True,
                      r_anchor_sku := (if pa_anchor_sku pa \<noteq> [] then pa_anchor_sku pa
                                       else r_anchor_sku r),
                      r_anchor_used := (if pa_anchor_sku pa \<noteq> [] then True
                                        else r_anchor_used r),
                      r_product_group :=
                        (if pa_product_group pa \<noteq> []
                            \<and> (case p_product_group p of None \<Rightarrow> True | Some g \<Rightarrow> g = [])
                         then pa_product_group pa else r_product_group r),
                      r_required_parts := (if pa_required_parts pa \<noteq> [] then pa_required_parts pa
                                           else r_required_parts r),
                      r_constraints := fill_constraints (r_constraints r) (pa_constraints pa)\<rparr>)
            else Inr r)
         else if act = SLOT_FILL_AMP \<or> act = SLOT_FILL_TYPE \<or> act = SLOT_FILL_QUANTITY then
           Inr (r\<lparr>r_clear_pending_action := True\<rparr>)
         else if act = NEGATE then
           Inr (r\<lparr>r_clear_pending_action := True\<rparr>)
         else if act = NEW_INTENT then
           then_do (new_intent_signal message normalized) (\<lambda>signal.
             Inr (if signal then r\<lparr>r_clear_pending_action := True\<rparr> else r))
         else Inr r)"

text \<open>
  \<^verbatim>\<open>resolve_request_with_memory(message, parsed, memory)\<close>: the dialogue act is
  computed first (line 2839), the quantity tests at line 2908.
\<close>

definition resolve_request_with_memory :: "string \<Rightarrow> parsed \<Rightarrow> short_memory
    \<Rightarrow> pyerr + resolved" where
  "resolve_request_with_memory message p memory =
     then_do (detect_dialogue_act message) (\<lambda>act.
       then_do (is_quantity_message message) (\<lambda>qty_msg.
         dispose_pending message (effective_normalized message p) p
           (mem_pending_action memory) act (resolve_slots message p memory qty_msg)))"



section \<open>Intent decisions and the routing rules\<close>

text \<open>
  \<^verbatim>\<open>IntentDecision\<close> (a dataclass). The decision handed to \<^verbatim>\<open>apply_intent_rules\<close> carries
  the next action proposed by the external generator.
\<close>

record intent_decision =
  d_intent :: string
  d_buy_intent :: bool
  d_info_only :: bool
  d_topic :: string
  d_entities :: pydict
  d_missing :: "string list"
  d_next_action :: string
  d_commercial_action :: pydict

definition allowed_actions :: "string list" where
  "allowed_actions = [''ANSWER_ONLY'', ''ASK_FOR_SKU_OR_GROUP'', ''ASK_HAND_VS_ROBOT_ONCE'',
     ''REQUEST_CONTACT_FORM'', ''COMMERCIAL_NEUTRAL_REPLY'']"

text \<open>
  \<^verbatim>\<open>apply_intent_rules\<close>. The result is a new decision built without
  \<^verbatim>\<open>commercial_action\<close>, which therefore takes its default, the empty dict.
\<close>

definition apply_intent_rules :: "intent_decision \<Rightarrow> string \<Rightarrow> intent_decision" where
  "apply_intent_rules decision normalized_message =
     (let info_only = d_info_only decision;
          commercial_action = d_commercial_action decision;
          info_only =
            (if d_intent decision \<in> set [''LIST'', ''LIST_REQUEST'', ''PRODUCT_LOOKUP'',
                  ''ACCESSORY_LOOKUP'', ''ACCESSORY_BUNDLE_LOOKUP'', ''CODE_LOOKUP'',
                  ''QUANTITY_FOLLOWUP'', ''SLOT_FILL_AMP'']
             then False else info_only);
          next_action =
            (if d_next_action decision \<in> set allowed_actions then d_next_action decision
             else ''ANSWER_ONLY'');
          next_action =
            (if info_only then ''ANSWER_ONLY''
             else if d_intent decision \<in> set [''LIST'', ''LIST_REQUEST''] then ''ANSWER_ONLY''
             else if d_intent decision \<in> set [''ACCESSORY_LOOKUP'', ''ACCESSORY_BUNDLE_LOOKUP'']
               then ''ANSWER_ONLY''
             else if d_intent decision = ''SLOT_FILL_AMP'' then ''ANSWER_ONLY''
             else if d_intent decision = ''QUANTITY_FOLLOWUP''
               then (if truthy (dict_get commercial_action ''collect_contact'')
                     then ''REQUEST_CONTACT_FORM'' else ''ANSWER_ONLY'')
             else if d_intent decision = ''PRODUCT_AVAILABILITY'' then ''ANSWER_ONLY''
             else if d_intent decision = ''CODE_LOOKUP'' \<and> \<not> d_buy_intent decision
               then ''ANSWER_ONLY''
             else if d_buy_intent decision \<and> ''sku'' \<in> set (d_missing decision)
               then ''ASK_FOR_SKU_OR_GROUP''
             else if d_buy_intent decision \<and> ''contact'' \<in> set (d_missing decision)
                     \<and> d_topic decision \<noteq> ''commercial''
               then ''REQUEST_CONTACT_FORM''
             else if d_topic decision = ''commercial'' then ''COMMERCIAL_NEUTRAL_REPLY''
             else if ''tay_robot'' \<in> set (d_missing decision) then ''ASK_HAND_VS_ROBOT_ONCE''
             else next_action)
      in \<lparr>d_intent = d_intent decision,
          d_buy_intent = d_buy_intent decision,
          d_info_only = info_only,
          d_topic = d_topic decision,
          d_entities = d_entities decision,
          d_missing = d_missing decision,
          d_next_action = next_action,
          d_commercial_action = []\<rparr>)"

text \<open>
  The intents under which the pass answers without looking at \<^verbatim>\<open>buy_intent\<close> and
  \<^verbatim>\<open>missing\<close>.
\<close>

definition answer_intents :: "string list" where
  "answer_intents = [''LIST'', ''LIST_REQUEST'', ''ACCESSORY_LOOKUP'', ''ACCESSORY_BUNDLE_LOOKUP'',
     ''SLOT_FILL_AMP'', ''QUANTITY_FOLLOWUP'', ''PRODUCT_AVAILABILITY'']"

text \<open>
  The decisions of a turn. \<^verbatim>\<open>_step_intent_detection\<close> either builds the decision by rule
  (source lines 577, 613, 630, 676, 700, 734 and 753, and \<^verbatim>\<open>build_forced_decision\<close>,
  line 3022): every one of these constructor calls has \<^verbatim>\<open>info_only=False\<close>,
  \<^verbatim>\<open>missing=[]\<close> and \<^verbatim>\<open>next_action="ANSWER_ONLY"\<close>, and differs in the intent, the buy
  intent, the topic and the entities; or it takes the decision that
  \<^verbatim>\<open>parse_intent_output\<close> builds from the output of the generator, which ends with
  \<^verbatim>\<open>apply_intent_rules\<close>, and merges the resolved request into it (lines 781 and 782).
\<close>

definition rule_decision :: "string \<Rightarrow> bool \<Rightarrow> string \<Rightarrow> pydict \<Rightarrow> intent_decision" where
  "rule_decision intent buy_intent topic entities =
     \<lparr>d_intent = intent, d_buy_intent = buy_intent, d_info_only = False, d_topic = topic,
      d_entities = entities, d_missing = [], d_next_action = ''ANSWER_ONLY'',
      d_commercial_action = []\<rparr>"

text \<open>
  \<^verbatim>\<open>merge_decision_with_resolved\<close>, on the resolved request as the resolver returns it (a
  dict that is never empty). It writes the entities and the missing list.
\<close>

definition merge_decision_with_resolved :: "intent_decision \<Rightarrow> resolved \<Rightarrow> intent_decision" where
  "merge_decision_with_resolved decision resolved =
     (let entities = d_entities decision;
          entities = (if r_anchor_sku resolved \<noteq> [] \<and> \<not> truthy (dict_get entities ''skus'')
                      then dict_set entities ''skus'' (VList [VStr (r_anchor_sku resolved)])
                      else entities);
          entities = (if r_product_group resolved \<noteq> []
                         \<and> \<not> truthy (dict_get entities ''product_group'')
                      then dict_set entities ''product_group'' (VStr (r_product_group resolved))
                      else entities);
          entities = (if truthy (r_line_amp resolved) \<and> \<not> truthy (dict_get entities ''amp'')
                      then dict_set entities ''amp'' (r_line_amp resolved) else entities);
          entities = (case r_is_robot resolved of
                        Some True \<Rightarrow> dict_set (dict_set entities ''is_robot'' (VBool True))
                                       ''is_hand'' (VBool False)
                      | Some False \<Rightarrow> dict_set (dict_set entities ''is_robot'' (VBool False))
                                        ''is_hand'' (VBool True)
                      | None \<Rightarrow> entities);
          entities = (if r_required_parts resolved \<noteq> []
                      then dict_set entities ''required_categories''
                             (VList (map VStr (r_required_parts resolved)))
                      else entities);
          entities = (if r_expand_bundle resolved
                      then dict_set entities ''expand_bundle'' (VBool True) else entities);
          entities = (if \<not> dict_has entities ''bundle_hint''
                         \<and> (r_required_parts resolved \<noteq> [] \<or> r_bundle_hint resolved)
                      then dict_set entities ''bundle_hint'' (VBool True) else entities);
          constraints = r_constraints resolved;
          entities = foldl (\<lambda>entities key.
                        if truthy (dict_get constraints key) \<and> \<not> truthy (dict_get entities key)
                        then dict_set entities key (dict_get constraints key) else entities)
                      entities [''size'', ''length'', ''thread'', ''material'', ''system''];
          missing = (if r_anchor_sku resolved \<noteq> [] \<and> ''sku'' \<in> set (d_missing decision)
                     then filter (\<lambda>item. item \<noteq> ''sku'') (d_missing decision)
                     else d_missing decision)
      in decision\<lparr>d_entities := entities, d_missing := missing\<rparr>)"

text \<open>
  How the decision of a turn is produced: by rule, from the chosen intent, buy intent,
  topic and entities; or from the decision that \<^verbatim>\<open>parse_intent_output\<close> hands to
  \<^verbatim>\<open>apply_intent_rules\<close>, with the normalized message and the resolved request.
\<close>

datatype production =
    By_Rule string bool string pydict
  | By_Generator intent_decision string resolved

fun produced_decision :: "production \<Rightarrow> intent_decision" where
  "produced_decision (By_Rule intent buy_intent topic entities)
     = rule_decision intent buy_intent topic entities"
| "produced_decision (By_Generator decision normalized resolved)
     = merge_decision_with_resolved (apply_intent_rules decision normalized) resolved"

section \<open>The constraints kept in the short memory\<close>




section \<open>Notions used in the proofs\<close>

text \<open>
  \<open>binds r n\<close>: every way of matching \<open>r\<close> passes through group \<open>n\<close>. It is a
  syntactic sufficient condition, used to show that \<^verbatim>\<open>match.group(n)\<close> is never
  \<^verbatim>\<open>None\<close> for the patterns whose groups the code converts to numbers.
\<close>

fun binds :: "rx \<Rightarrow> nat \<Rightarrow> bool" where
  "binds (Grp k a) n = (k = n \<or> binds a n)"
| "binds (Seq a b) n = (binds a n \<or> binds b n)"
| "binds (Alt a b) n = (binds a n \<and> binds b n)"
| "binds r n = False"

text \<open>
  The language of a pattern, word boundaries ignored: every result of the matcher
  consumes a word of this language. It is used to read off the shape of the strings
  that the quantity-only patterns accept.
\<close>

definition conc :: "string set \<Rightarrow> string set \<Rightarrow> string set" where
  "conc A B = {a @ b | a b. a \<in> A \<and> b \<in> B}"

fun lang :: "bool \<Rightarrow> rx \<Rightarrow> string set" where
  "lang ic (Sym c) = {[x] | x. cmatch ic c x}"
| "lang ic Eps = {[]}"
| "lang ic (Seq a b) = conc (lang ic a) (lang ic b)"
| "lang ic (Alt a b) = lang ic a \<union> lang ic b"
| "lang ic (Opt a) = insert [] (lang ic a)"
| "lang ic (Rep c lo hi) = {t. \<forall>x \<in> set t. cmatch ic c x}"
| "lang ic WordB = {[]}"
| "lang ic (Grp n a) = lang ic a"

text \<open>\<open>only_chars u s\<close>: the string is made of digits, white space and letters of \<open>u\<close>.\<close>

definition only_chars :: "string \<Rightarrow> string \<Rightarrow> bool" where
  "only_chars u s = (\<forall>x \<in> set s. is_digit x \<or> is_space x \<or> x \<in> set u)"

text \<open>
  The keywords that \<^verbatim>\<open>detect_product_group\<close> looks for, and the letters that the
  quantity-only patterns can consume besides digits and white space.
\<close>

definition group_keywords :: "string list" where
  "group_keywords = [''than giu'', ''tip body'', ''cach dien'', ''insulator'', ''su'', ''orifice'',
     ''diffuser'', ''chup'', ''nozzle'', ''bec'', ''contact tip'', ''tip'']"

definition quantity_alphabets :: "string list" where
  "quantity_alphabets = [[], ''mot'', ''motcai'', ''motchiec'', ''motcon'', ''motbo'', ''motcap'',
     ''cai'', ''chiec'', ''con'', ''bo'', ''cap'']"


section \<open>Facts about the short-memory defaults\<close>





section \<open>Capture groups that always take part in a match\<close>

lemma mt_binds:
  "(p', s', g') \<in> set (mt ic r (p, s, g)) \<Longrightarrow> binds r n \<or> map_of g n \<noteq> None
   \<Longrightarrow> map_of g' n \<noteq> None"
proof (induction r arbitrary: p s g p' s' g')
  case (Sym c)
  then show ?case by (auto split: list.splits if_splits)
next
  case Eps
  then show ?case by auto
next
  case (Seq a b)
  from Seq.prems(1) obtain pm sm gm where
    mid: "(pm, sm, gm) \<in> set (mt ic a (p, s, g))" and
    fin: "(p', s', g') \<in> set (mt ic b (pm, sm, gm))"
    by auto
  show ?case
  proof (cases "binds a n \<or> map_of g n \<noteq> None")
    case True
    from Seq.IH(1) [OF mid True] have "map_of gm n \<noteq> None" .
    then show ?thesis using Seq.IH(2) [OF fin] by blast
  next
    case False
    with Seq.prems(2) have "binds b n" by simp
    then show ?thesis using Seq.IH(2) [OF fin] by blast
  qed
next
  case (Alt a b)
  then show ?case by auto
next
  case (Opt a)
  then show ?case by auto
next
  case (Rep c lo hi)
  then show ?case by auto
next
  case WordB
  then show ?case by (auto split: if_splits)
next
  case (Grp k a)
  from Grp.prems(1) obtain g0 where
    inner: "(p', s', g0) \<in> set (mt ic a (p, s, g))" and
    g': "g' = (k, take (length s - length s') s) # g0"
    by auto
  show ?case
  proof (cases "k = n")
    case True
    then show ?thesis using g' by simp
  next
    case False
    with Grp.prems(2) have "binds a n \<or> map_of g n \<noteq> None" by simp
    from Grp.IH [OF inner this] show ?thesis using g' False by simp
  qed
qed

lemma search_at_binds:
  "search_at ic r pos p s = Some m \<Longrightarrow> binds r n \<Longrightarrow> map_of (m_groups m) n \<noteq> None"
proof (induction s arbitrary: pos p)
  case Nil
  then obtain p' s' g' rest where hd: "mt ic r (p, [], []) = (p', s', g') # rest"
    and m: "m_groups m = g'"
    by (auto split: list.splits)
  then have "(p', s', g') \<in> set (mt ic r (p, [], []))" by simp
  from mt_binds [OF this] Nil.prems(2) show ?case using m by simp
next
  case (Cons x xs)
  show ?case
  proof (cases "mt ic r (p, x # xs, [])")
    case Nil
    with Cons.prems(1) have "search_at ic r (Suc pos) (Some x) xs = Some m" by simp
    from Cons.IH [OF this Cons.prems(2)] show ?thesis .
  next
    case (Cons st rest)
    obtain p' s' g' where st: "st = (p', s', g')" by (cases st)
    with Cons Cons.prems(1) have m: "m_groups m = g'" by auto
    from Cons st have "(p', s', g') \<in> set (mt ic r (p, x # xs, []))" by simp
    from mt_binds [OF this] Cons.prems(2) show ?thesis using m by simp
  qed
qed

lemma group_bound:
  "re_search ic r s = Some m \<Longrightarrow> binds r n \<Longrightarrow> \<exists>t. group m n = Some t"
  using search_at_binds [of ic r 0 None s m n]
  by (auto simp add: re_search_def group_def)

section \<open>The slot extractors never raise\<close>

lemma binds_SO_LUONG: "binds SO_LUONG_RE 2"
  by (simp add: SO_LUONG_RE_def)

lemma binds_QUANTITY: "binds QUANTITY_RE 1"
  by (simp add: QUANTITY_RE_def)



lemma extract_quantity_total: "\<exists>q. extract_quantity n = Inr q"
proof (cases "re_search True SO_LUONG_RE n")
  case (Some m)
  from group_bound [OF Some binds_SO_LUONG] show ?thesis
    using Some by (auto simp add: extract_quantity_def int_of_group_def)
next
  case None
  show ?thesis
  proof (cases "re_search True QUANTITY_RE n")
    case (Some m)
    from group_bound [OF Some binds_QUANTITY] show ?thesis
      using Some None by (auto simp add: extract_quantity_def int_of_group_def)
  next
    case None2: None
    with None show ?thesis by (simp add: extract_quantity_def)
  qed
qed




section \<open>The dialogue-act classifier and the resolver never raise\<close>

lemma then_do_Inr [simp]: "then_do (Inr v) f = f v"
  by (simp add: then_do_def)

lemma then_do_Inl [simp]: "then_do (Inl e) f = Inl e"
  by (simp add: then_do_def)

lemma is_amp_only_message_total: "\<exists>b. is_amp_only_message message = Inr b"
proof -
  obtain q where "extract_quantity (normalize_text message) = Inr q"
    using extract_quantity_total by blast
  then show ?thesis by (auto simp add: is_amp_only_message_def Let_def)
qed

lemma is_quantity_followup_message_total: "\<exists>b. is_quantity_followup_message message = Inr b"
proof -
  obtain q where "extract_quantity (normalize_text message) = Inr q"
    using extract_quantity_total by blast
  then show ?thesis by (auto simp add: is_quantity_followup_message_def Let_def)
qed

lemma is_quantity_message_total: "\<exists>b. is_quantity_message message = Inr b"
  using is_quantity_followup_message_total [of message]
  by (auto simp add: is_quantity_message_def)

lemma short_reply_with_total: "\<exists>b. short_reply_with terms message = Inr b"
proof -
  obtain q where "extract_quantity (normalize_text message) = Inr q"
    using extract_quantity_total by blast
  then show ?thesis by (auto simp add: short_reply_with_def Let_def)
qed

lemma detect_dialogue_act_total: "\<exists>a. detect_dialogue_act message = Inr a"
proof -
  obtain b1 where b1: "is_amp_only_message message = Inr b1"
    using is_amp_only_message_total by blast
  obtain b2 where b2: "is_quantity_message message = Inr b2"
    using is_quantity_message_total by blast
  obtain b3 where b3: "is_affirmation_message message = Inr b3"
    using short_reply_with_total by (auto simp add: is_affirmation_message_def)
  obtain b4 where b4: "is_negative_message message = Inr b4"
    using short_reply_with_total by (auto simp add: is_negative_message_def)
  show ?thesis by (auto simp add: detect_dialogue_act_def b1 b2 b3 b4)
qed

lemma new_intent_signal_total: "\<exists>b. new_intent_signal message n = Inr b"
proof -
  obtain q where "extract_quantity n = Inr q"
    using extract_quantity_total by blast
  then show ?thesis by (auto simp add: new_intent_signal_def)
qed

lemma dispose_pending_total: "\<exists>d. dispose_pending message n p pending act r = Inr d"
proof -
  obtain b where b: "new_intent_signal message n = Inr b"
    using new_intent_signal_total by blast
  show ?thesis
    by (cases pending) (auto simp add: dispose_pending_def b)
qed

lemma resolve_total: "\<exists>r. resolve_request_with_memory message p memory = Inr r"
proof -
  obtain act where act: "detect_dialogue_act message = Inr act"
    using detect_dialogue_act_total by blast
  obtain qm where qm: "is_quantity_message message = Inr qm"
    using is_quantity_message_total by blast
  show ?thesis
    using dispose_pending_total by (simp add: resolve_request_with_memory_def act qm)
qed

section \<open>What a match can consume\<close>

lemma reps_consumes:
  "(k, p', s') \<in> set (reps ic c hi p s) \<Longrightarrow> \<exists>t. s = t @ s' \<and> (\<forall>x \<in> set t. cmatch ic c x)"
proof (induction s arbitrary: k p hi)
  case Nil
  then show ?case by auto
next
  case (Cons x xs)
  show ?case
  proof (cases "(k, p', s') = (0, p, x # xs)")
    case True
    then show ?thesis by auto
  next
    case False
    with Cons.prems obtain k0 where
      ok: "cmatch ic c x" and
      rec: "(k0, p', s') \<in> set (reps ic c (map_option (\<lambda>h. h - 1) hi) (Some x) xs)"
      by (auto split: if_splits)
    from Cons.IH [OF rec] obtain t where "xs = t @ s'" "\<forall>y \<in> set t. cmatch ic c y"
      by blast
    with ok have "x # xs = (x # t) @ s' \<and> (\<forall>y \<in> set (x # t). cmatch ic c y)" by simp
    then show ?thesis by blast
  qed
qed

lemma mt_lang:
  "(p', s', g') \<in> set (mt ic r (p, s, g)) \<Longrightarrow> \<exists>t. s = t @ s' \<and> t \<in> lang ic r"
proof (induction r arbitrary: p s g p' s' g')
  case (Sym c)
  then show ?case by (cases s) (auto split: if_splits)
next
  case Eps
  then show ?case by auto
next
  case (Seq a b)
  from Seq.prems obtain pm sm gm where
    mid: "(pm, sm, gm) \<in> set (mt ic a (p, s, g))" and
    fin: "(p', s', g') \<in> set (mt ic b (pm, sm, gm))"
    by auto
  from Seq.IH(1) [OF mid] obtain t1 where t1: "s = t1 @ sm" "t1 \<in> lang ic a" by blast
  from Seq.IH(2) [OF fin] obtain t2 where t2: "sm = t2 @ s'" "t2 \<in> lang ic b" by blast
  from t1 t2 have "s = (t1 @ t2) @ s' \<and> t1 @ t2 \<in> lang ic (Seq a b)"
    by (auto simp add: conc_def)
  then show ?case by blast
next
  case (Alt a b)
  then show ?case by fastforce
next
  case (Opt a)
  then show ?case by fastforce
next
  case (Rep c lo hi)
  from Rep obtain k where "(k, p', s') \<in> set (reps ic c hi p s)" by auto
  from reps_consumes [OF this] show ?case by auto
next
  case WordB
  then show ?case by (auto split: if_splits)
next
  case (Grp n a)
  from Grp.prems obtain g0 where "(p', s', g0) \<in> set (mt ic a (p, s, g))" by auto
  from Grp.IH [OF this] show ?case by simp
qed

lemma fullmatch_lang: "re_fullmatch ic r s \<Longrightarrow> s \<in> lang ic r"
proof -
  assume "re_fullmatch ic r s"
  then obtain p' g' where "(p', [], g') \<in> set (mt ic r (None, s, []))"
    by (auto simp add: re_fullmatch_def list_ex_iff)
  from mt_lang [OF this] show ?thesis by simp
qed

lemma contains_set: "contains sub s \<Longrightarrow> set sub \<subseteq> set s"
proof (induction s)
  case Nil
  then show ?case by simp
next
  case (Cons x xs)
  then show ?case
    using set_mono_prefix [of sub "x # xs"] by auto
qed

text \<open>Case-sensitive literal words match themselves only.\<close>

lemma lang_Str_exact: "lang False (Str w) = {w}"
  by (induction w rule: Str.induct) (auto simp add: conc_def cmatch_def)

section \<open>A quantity-only message names no product group\<close>

lemma only_chars_contains:
  "only_chars u s \<Longrightarrow> contains kw s \<Longrightarrow> \<forall>c \<in> set kw. is_digit c \<or> is_space c \<or> c \<in> set u"
  using contains_set [of kw s] by (auto simp add: only_chars_def)

lemma lang_units5:
  "lang False units5 = {''cai'', ''chiec'', ''con'', ''bo'', ''cap''}"
  by (auto simp add: units5_def Words_def lang_Str_exact simp del: Str.simps)

lemma only_chars_digits_unit:
  "(\<forall>x \<in> set d. is_digit x) \<Longrightarrow> (\<forall>x \<in> set w. is_space x) \<Longrightarrow> only_chars u (d @ w @ u)"
  by (auto simp add: only_chars_def)

lemma only_chars_mot_unit:
  "(\<forall>x \<in> set w. is_space x) \<Longrightarrow> only_chars (''mot'' @ u) (''mot'' @ w @ u)"
  by (auto simp add: only_chars_def)

lemma pure_digits_chars:
  assumes "s \<in> lang False PURE_QTY_DIGITS"
  shows "\<exists>u \<in> set quantity_alphabets. only_chars u s"
proof -
  from assms have "only_chars [] s"
    by (auto simp add: PURE_QTY_DIGITS_def only_chars_def cmatch_def)
  moreover have "[] \<in> set quantity_alphabets"
    by (simp add: quantity_alphabets_def)
  ultimately show ?thesis by blast
qed

lemma pure_mot_chars:
  assumes "s \<in> lang False PURE_QTY_MOT"
  shows "\<exists>u \<in> set quantity_alphabets. only_chars u s"
proof -
  from assms have "s = ''mot'' \<or> (\<exists>w u. s = ''mot'' @ w @ u \<and> (\<forall>x \<in> set w. is_space x)
                                     \<and> u \<in> lang False units5)"
    by (auto simp add: PURE_QTY_MOT_def conc_def cmatch_def lang_Str_exact simp del: Str.simps)
  then show ?thesis
  proof
    assume "s = ''mot''"
    then have "only_chars ''mot'' s" by (simp add: only_chars_def)
    moreover have "''mot'' \<in> set quantity_alphabets" by (simp add: quantity_alphabets_def)
    ultimately show ?thesis by blast
  next
    assume "\<exists>w u. s = ''mot'' @ w @ u \<and> (\<forall>x \<in> set w. is_space x) \<and> u \<in> lang False units5"
    then obtain w u where s: "s = ''mot'' @ w @ u" and w: "\<forall>x \<in> set w. is_space x"
      and u: "u \<in> lang False units5" by blast
    from only_chars_mot_unit [OF w] s have "only_chars (''mot'' @ u) s" by simp
    moreover from u have "''mot'' @ u \<in> set quantity_alphabets"
      by (auto simp add: lang_units5 quantity_alphabets_def)
    ultimately show ?thesis by blast
  qed
qed

lemma pure_unit_chars:
  assumes "s \<in> lang False PURE_QTY_UNIT"
  shows "\<exists>u \<in> set quantity_alphabets. only_chars u s"
proof -
  from assms obtain d w u where s: "s = d @ w @ u" and d: "\<forall>x \<in> set d. is_digit x"
    and w: "\<forall>x \<in> set w. is_space x" and u: "u \<in> lang False units5"
    by (auto simp add: PURE_QTY_UNIT_def spaces0_def conc_def cmatch_def)
  from only_chars_digits_unit [OF d w] s have "only_chars u s" by simp
  moreover from u have "u \<in> set quantity_alphabets"
    by (auto simp add: lang_units5 quantity_alphabets_def)
  ultimately show ?thesis by blast
qed

text \<open>No group keyword is made of digits, white space and the letters of one quantity word.\<close>

lemma keyword_needs_other_letter:
  "list_all (\<lambda>u. list_all (\<lambda>kw. list_ex (\<lambda>c. \<not> (is_digit c \<or> is_space c \<or> c \<in> set u)) kw)
                        group_keywords) quantity_alphabets"
  by code_simp

lemma no_keyword_no_group:
  "\<forall>kw \<in> set group_keywords. \<not> contains kw s \<Longrightarrow> detect_product_group s = None"
  by (simp add: group_keywords_def detect_product_group_def)

lemma no_group_in:
  assumes "only_chars u s" and "u \<in> set quantity_alphabets"
  shows "detect_product_group s = None"
proof (rule no_keyword_no_group, rule ballI)
  fix kw assume kw: "kw \<in> set group_keywords"
  from keyword_needs_other_letter assms(2) kw
  have "\<exists>c \<in> set kw. \<not> (is_digit c \<or> is_space c \<or> c \<in> set u)"
    by (simp add: list_all_iff list_ex_iff)
  then show "\<not> contains kw s"
    using only_chars_contains [OF assms(1), of kw] by blast
qed

lemma pure_quantity_names_no_group:
  assumes "is_pure_quantity_message message"
  shows "detect_product_group (normalize_text message) = None"
proof -
  let ?n = "normalize_text message"
  from assms have "re_fullmatch False PURE_QTY_DIGITS ?n \<or> re_fullmatch False PURE_QTY_MOT ?n
                   \<or> re_fullmatch False PURE_QTY_UNIT ?n"
    by (auto simp add: is_pure_quantity_message_def Let_def split: if_splits)
  then have "?n \<in> lang False PURE_QTY_DIGITS \<or> ?n \<in> lang False PURE_QTY_MOT
             \<or> ?n \<in> lang False PURE_QTY_UNIT"
    using fullmatch_lang by blast
  then have "\<exists>u \<in> set quantity_alphabets. only_chars u ?n"
    using pure_digits_chars [of ?n] pure_mot_chars [of ?n] pure_unit_chars [of ?n] by blast
  then show ?thesis using no_group_in by blast
qed

section \<open>Facts about the resolver\<close>

lemma map_of_dict_set: "map_of (dict_set d k v) k' = (if k' = k then Some v else map_of d k')"
  by (induction d) auto

lemma dict_get_dict_set: "dict_get (dict_set d k v) k' = (if k' = k then v else dict_get d k')"
  by (simp add: dict_get_def map_of_dict_set)








section \<open>Facts about the constraint overlay\<close>



section \<open>Claims on the short memory\<close>






section \<open>Claims on the memory resolver\<close>







section \<open>Claims on slot extraction and dialogue acts\<close>

text \<open>
  C5. The claim: an utterance that names a product group is never classified as a
  slot fill. The amp-only and the quantity tests do exclude a named group, but the
  type-only test does not: \<^verbatim>\<open>bec robot\<close> names the group TIP and is classified as
  SLOT_FILL_TYPE. The theorem evaluates the classifier at this input.
\<close>

theorem C5_group_and_type_word_is_slot_fill_type:
  "detect_product_group (normalize_text ''bec robot'') = Some ''TIP''
   \<and> is_type_only_message ''bec robot''
   \<and> detect_dialogue_act ''bec robot'' = Inr SLOT_FILL_TYPE"
  by code_simp

text \<open>
  What does hold for an utterance that names a product group: the classifier returns,
  never with SLOT_FILL_AMP or SLOT_FILL_QUANTITY, and with SLOT_FILL_TYPE exactly when
  the type-only test accepts the utterance.
\<close>

lemma group_excludes_amp_and_quantity_fill:
  assumes "detect_product_group (normalize_text message) \<noteq> None"
  shows "\<exists>a. detect_dialogue_act message = Inr a
             \<and> a \<noteq> SLOT_FILL_AMP \<and> a \<noteq> SLOT_FILL_QUANTITY
             \<and> (a = SLOT_FILL_TYPE \<longleftrightarrow> is_type_only_message message)"
proof -
  obtain q where q: "extract_quantity (normalize_text message) = Inr q"
    using extract_quantity_total by blast
  have amp: "is_amp_only_message message = Inr False"
    using assms q by (auto simp add: is_amp_only_message_def Let_def)
  have "\<not> is_pure_quantity_message message"
    using pure_quantity_names_no_group [of message] assms by auto
  moreover have "is_quantity_followup_message message = Inr False"
    using assms q by (auto simp add: is_quantity_followup_message_def Let_def)
  ultimately have qty: "is_quantity_message message = Inr False"
    by (simp add: is_quantity_message_def)
  obtain b3 where b3: "is_affirmation_message message = Inr b3"
    using short_reply_with_total by (auto simp add: is_affirmation_message_def)
  obtain b4 where b4: "is_negative_message message = Inr b4"
    using short_reply_with_total by (auto simp add: is_negative_message_def)
  show ?thesis
    by (simp add: detect_dialogue_act_def amp qty b3 b4)
qed

text \<open>The docstring of \<^verbatim>\<open>is_type_only_message\<close> expects \<^verbatim>\<open>robot 350A\<close> to be rejected.\<close>

lemma type_only_accepts_amp_reply: "is_type_only_message ''robot 350A''"
  by code_simp



section \<open>Claim on the next action\<close>

text \<open>
  C3, as stated: a decision with \<^verbatim>\<open>buy_intent\<close> true and \<^verbatim>\<open>sku\<close> in its missing set
  always ends with \<^verbatim>\<open>ASK_FOR_SKU_OR_GROUP\<close>, and the pass always overrides the proposed
  action. Neither holds. The intent rules come first: a LIST decision with
  \<^verbatim>\<open>buy_intent\<close> and a missing \<^verbatim>\<open>sku\<close> ends with \<^verbatim>\<open>ANSWER_ONLY\<close>. And when no rule
  applies the proposed action is kept: an OTHER decision on topic \<^verbatim>\<open>product\<close> with
  nothing missing keeps the proposed \<^verbatim>\<open>REQUEST_CONTACT_FORM\<close>.
\<close>

theorem C3_buy_without_sku_counterexample:
  "d_buy_intent \<lparr>d_intent = ''LIST'', d_buy_intent = True, d_info_only = False,
        d_topic = ''list'', d_entities = [], d_missing = [''sku''],
        d_next_action = ''ASK_FOR_SKU_OR_GROUP'', d_commercial_action = []\<rparr>
   \<and> ''sku'' \<in> set (d_missing \<lparr>d_intent = ''LIST'', d_buy_intent = True, d_info_only = False,
        d_topic = ''list'', d_entities = [], d_missing = [''sku''],
        d_next_action = ''ASK_FOR_SKU_OR_GROUP'', d_commercial_action = []\<rparr>)
   \<and> d_next_action (apply_intent_rules
        \<lparr>d_intent = ''LIST'', d_buy_intent = True, d_info_only = False,
         d_topic = ''list'', d_entities = [], d_missing = [''sku''],
         d_next_action = ''ASK_FOR_SKU_OR_GROUP'', d_commercial_action = []\<rparr>
        ''danh sach mua'') = ''ANSWER_ONLY''
   \<and> d_next_action (apply_intent_rules
        \<lparr>d_intent = ''OTHER'', d_buy_intent = False, d_info_only = False,
         d_topic = ''product'', d_entities = [], d_missing = [],
         d_next_action = ''REQUEST_CONTACT_FORM'', d_commercial_action = []\<rparr>
        ''xin chao'') = ''REQUEST_CONTACT_FORM''"
  by (simp add: apply_intent_rules_def allowed_actions_def)

text \<open>
  C3, amended. Every decision produced for a turn, by rule or from the generator, has
  its next action in the fixed enumeration; a decision built by rule has
  \<^verbatim>\<open>ANSWER_ONLY\<close>. For a decision \<open>d\<close> that the generator path hands to the hard-rule
  pass, the next action of the turn is the one the pass computes, and:
  \<^item> the result is info-only exactly when \<open>d\<close> was and its intent is not one of the
    eight lookup intents;
  \<^item> an info-only result, and every LIST, LIST_REQUEST, ACCESSORY_LOOKUP,
    ACCESSORY_BUNDLE_LOOKUP, SLOT_FILL_AMP and PRODUCT_AVAILABILITY decision, ends with
    \<^verbatim>\<open>ANSWER_ONLY\<close>;
  \<^item> a QUANTITY_FOLLOWUP decision ends with \<^verbatim>\<open>REQUEST_CONTACT_FORM\<close> when its commercial
    action asks to collect the contact, and with \<^verbatim>\<open>ANSWER_ONLY\<close> otherwise;
  \<^item> outside these cases a decision with \<^verbatim>\<open>buy_intent\<close> and \<^verbatim>\<open>sku\<close> missing ends with
    \<^verbatim>\<open>ASK_FOR_SKU_OR_GROUP\<close>, whatever was proposed;
  \<^item> when no rule applies, the proposed action is kept if it is in the enumeration and
    replaced by \<^verbatim>\<open>ANSWER_ONLY\<close> otherwise.
\<close>

theorem C3_next_action_after_hard_rules:
  "d_next_action (produced_decision how) \<in> set allowed_actions
   \<and> d_next_action (produced_decision (By_Rule intent buy_intent topic entities)) = ''ANSWER_ONLY''
   \<and> d_next_action (produced_decision (By_Generator d n resolved))
       = d_next_action (apply_intent_rules d n)
   \<and> d_info_only (apply_intent_rules d n)
       = (d_info_only d \<and> d_intent d \<notin> set [''LIST'', ''LIST_REQUEST'', ''PRODUCT_LOOKUP'',
             ''ACCESSORY_LOOKUP'', ''ACCESSORY_BUNDLE_LOOKUP'', ''CODE_LOOKUP'',
             ''QUANTITY_FOLLOWUP'', ''SLOT_FILL_AMP''])
   \<and> (d_info_only (apply_intent_rules d n)
        \<or> (d_intent d \<in> set answer_intents \<and> d_intent d \<noteq> ''QUANTITY_FOLLOWUP'')
       \<longrightarrow> d_next_action (apply_intent_rules d n) = ''ANSWER_ONLY'')
   \<and> (d_intent d = ''QUANTITY_FOLLOWUP''
       \<longrightarrow> d_next_action (apply_intent_rules d n)
             = (if truthy (dict_get (d_commercial_action d) ''collect_contact'')
                then ''REQUEST_CONTACT_FORM'' else ''ANSWER_ONLY''))
   \<and> (d_buy_intent d \<and> ''sku'' \<in> set (d_missing d)
        \<and> \<not> d_info_only (apply_intent_rules d n) \<and> d_intent d \<notin> set answer_intents
       \<longrightarrow> d_next_action (apply_intent_rules d n) = ''ASK_FOR_SKU_OR_GROUP'')
   \<and> (\<not> d_info_only (apply_intent_rules d n) \<and> d_intent d \<notin> set answer_intents
        \<and> \<not> (d_intent d = ''CODE_LOOKUP'' \<and> \<not> d_buy_intent d)
        \<and> \<not> (d_buy_intent d \<and> ''sku'' \<in> set (d_missing d))
        \<and> \<not> (d_buy_intent d \<and> ''contact'' \<in> set (d_missing d))
        \<and> d_topic d \<noteq> ''commercial'' \<and> ''tay_robot'' \<notin> set (d_missing d)
       \<longrightarrow> d_next_action (apply_intent_rules d n)
             = (if d_next_action d \<in> set allowed_actions then d_next_action d
                else ''ANSWER_ONLY''))"
proof -
  have 1: "\<And>d n. d_next_action (apply_intent_rules d n) \<in> set allowed_actions"
    by (simp add: apply_intent_rules_def Let_def allowed_actions_def)
  have m: "\<And>d r. d_next_action (merge_decision_with_resolved d r) = d_next_action d"
    by (simp add: merge_decision_with_resolved_def Let_def)
  have 0: "d_next_action (produced_decision how) \<in> set allowed_actions"
  proof (cases how)
    case (By_Rule i b t e)
    then show ?thesis by (simp add: rule_decision_def allowed_actions_def)
  next
    case (By_Generator d0 n0 r0)
    then show ?thesis using 1 [of d0 n0] by (simp add: m)
  qed
  have r: "d_next_action (produced_decision (By_Rule intent buy_intent topic entities))
           = ''ANSWER_ONLY''"
    by (simp add: rule_decision_def)
  have g: "d_next_action (produced_decision (By_Generator d n resolved))
           = d_next_action (apply_intent_rules d n)"
    by (simp add: m)
  have 2: "d_info_only (apply_intent_rules d n)
       = (d_info_only d \<and> d_intent d \<notin> set [''LIST'', ''LIST_REQUEST'', ''PRODUCT_LOOKUP'',
             ''ACCESSORY_LOOKUP'', ''ACCESSORY_BUNDLE_LOOKUP'', ''CODE_LOOKUP'',
             ''QUANTITY_FOLLOWUP'', ''SLOT_FILL_AMP''])"
    by (simp add: apply_intent_rules_def Let_def)
  have 3: "d_info_only (apply_intent_rules d n)
        \<or> (d_intent d \<in> set answer_intents \<and> d_intent d \<noteq> ''QUANTITY_FOLLOWUP'')
       \<longrightarrow> d_next_action (apply_intent_rules d n) = ''ANSWER_ONLY''"
    by (auto simp add: apply_intent_rules_def Let_def answer_intents_def)
  have q: "d_intent d = ''QUANTITY_FOLLOWUP''
       \<longrightarrow> d_next_action (apply_intent_rules d n)
             = (if truthy (dict_get (d_commercial_action d) ''collect_contact'')
                then ''REQUEST_CONTACT_FORM'' else ''ANSWER_ONLY'')"
    by (simp add: apply_intent_rules_def Let_def)
  have 4: "d_buy_intent d \<and> ''sku'' \<in> set (d_missing d)
        \<and> \<not> d_info_only (apply_intent_rules d n) \<and> d_intent d \<notin> set answer_intents
       \<longrightarrow> d_next_action (apply_intent_rules d n) = ''ASK_FOR_SKU_OR_GROUP''"
    by (auto simp add: apply_intent_rules_def Let_def answer_intents_def)
  have 5: "\<not> d_info_only (apply_intent_rules d n) \<and> d_intent d \<notin> set answer_intents
        \<and> \<not> (d_intent d = ''CODE_LOOKUP'' \<and> \<not> d_buy_intent d)
        \<and> \<not> (d_buy_intent d \<and> ''sku'' \<in> set (d_missing d))
        \<and> \<not> (d_buy_intent d \<and> ''contact'' \<in> set (d_missing d))
        \<and> d_topic d \<noteq> ''commercial'' \<and> ''tay_robot'' \<notin> set (d_missing d)
       \<longrightarrow> d_next_action (apply_intent_rules d n)
             = (if d_next_action d \<in> set allowed_actions then d_next_action d
                else ''ANSWER_ONLY'')"
    by (auto simp add: apply_intent_rules_def Let_def answer_intents_def)
  from 0 r g 2 3 q 4 5 show ?thesis by blast
qed

theorem C3_next_action_after_hard_rules_witness:
  "d_next_action (apply_intent_rules
        \<lparr>d_intent = ''OTHER'', d_buy_intent = True, d_info_only = False,
         d_topic = ''product'', d_entities = [], d_missing = [''sku'', ''contact''],
         d_next_action = ''REQUEST_CONTACT_FORM'', d_commercial_action = []\<rparr>
        ''toi muon mua'') = ''ASK_FOR_SKU_OR_GROUP''
   \<and> d_next_action (apply_intent_rules
        \<lparr>d_intent = ''PRODUCT_AVAILABILITY'', d_buy_intent = True, d_info_only = False,
         d_topic = ''product'', d_entities = [], d_missing = [''sku''],
         d_next_action = ''ASK_FOR_SKU_OR_GROUP'', d_commercial_action = []\<rparr>
        ''co ban khong'') = ''ANSWER_ONLY''
   \<and> d_next_action (apply_intent_rules
        \<lparr>d_intent = ''QUANTITY_FOLLOWUP'', d_buy_intent = True, d_info_only = False,
         d_topic = ''product'', d_entities = [], d_missing = [''sku''],
         d_next_action = ''ASK_FOR_SKU_OR_GROUP'',
         d_commercial_action = [(''collect_contact'', VBool True)]\<rparr>
        ''100 cai'') = ''REQUEST_CONTACT_FORM''
   \<and> d_next_action (apply_intent_rules
        \<lparr>d_intent = ''OTHER'', d_buy_intent = False, d_info_only = False,
         d_topic = ''product'', d_entities = [], d_missing = [],
         d_next_action = ''call me'', d_commercial_action = []\<rparr>
        ''xin chao'') = ''ANSWER_ONLY''"
  using C3_next_action_after_hard_rules
     [of _ _ _ _ _ "\<lparr>d_intent = ''OTHER'', d_buy_intent = True, d_info_only = False,
         d_topic = ''product'', d_entities = [], d_missing = [''sku'', ''contact''],
         d_next_action = ''REQUEST_CONTACT_FORM'', d_commercial_action = []\<rparr>" "''toi muon mua''"]
    C3_next_action_after_hard_rules
     [of _ _ _ _ _ "\<lparr>d_intent = ''PRODUCT_AVAILABILITY'', d_buy_intent = True, d_info_only = False,
         d_topic = ''product'', d_entities = [], d_missing = [''sku''],
         d_next_action = ''ASK_FOR_SKU_OR_GROUP'', d_commercial_action = []\<rparr>" "''co ban khong''"]
    C3_next_action_after_hard_rules
     [of _ _ _ _ _ "\<lparr>d_intent = ''QUANTITY_FOLLOWUP'', d_buy_intent = True, d_info_only = False,
         d_topic = ''product'', d_entities = [], d_missing = [''sku''],
         d_next_action = ''ASK_FOR_SKU_OR_GROUP'',
         d_commercial_action = [(''collect_contact'', VBool True)]\<rparr>" "''100 cai''"]
    C3_next_action_after_hard_rules
     [of _ _ _ _ _ "\<lparr>d_intent = ''OTHER'', d_buy_intent = False, d_info_only = False,
         d_topic = ''product'', d_entities = [], d_missing = [],
         d_next_action = ''call me'', d_commercial_action = []\<rparr>" "''xin chao''"]
  by (simp add: answer_intents_def allowed_actions_def dict_get_def)

section \<open>Claim on the stored constraints\<close>



end
